theory Spec2Isabelle
  imports Complex_Main
begin

section \<open>Clinical trial analyzer: validation and statistics engine\<close>

text \<open>
  A shallow embedding of \<^verbatim>\<open>TrialDataAnalyzer\<close> (clinical_trial_analyzer.py).
  The data frame \<^verbatim>\<open>self.df\<close> is a list of rows; a missing cell (pandas NaN, NaT or
  None) is \<open>None\<close>. Floats are modelled by the rationals they denote, so comparisons
  are exact and the rounding of a result is the rounding of the exact quotient.
\<close>

subsection \<open>Cells and Python's rendering of them\<close>

text \<open>
  A cell of the numeric \<^verbatim>\<open>age\<close> column after \<^verbatim>\<open>pd.to_numeric\<close>:
  an int64 column holds \<open>IntV\<close> cells only, a float64 column holds \<open>FloatV\<close> cells
  and \<open>NaN\<close>.
\<close>

datatype num = NaN | IntV int | FloatV rat

fun isna_num :: "num \<Rightarrow> bool" where
  "isna_num NaN = True"
| "isna_num (IntV i) = False"
| "isna_num (FloatV q) = False"

text \<open>The numeric value of a cell; NaN has none.\<close>

fun num_value :: "num \<Rightarrow> rat option" where
  "num_value NaN = None"
| "num_value (IntV i) = Some (of_int i)"
| "num_value (FloatV q) = Some q"

text \<open>Comparisons with NaN are False, as in IEEE arithmetic.\<close>

definition num_lt :: "num \<Rightarrow> rat \<Rightarrow> bool" where
  "num_lt x b = (case num_value x of None \<Rightarrow> False | Some v \<Rightarrow> v < b)"

definition num_gt :: "num \<Rightarrow> rat \<Rightarrow> bool" where
  "num_gt x b = (case num_value x of None \<Rightarrow> False | Some v \<Rightarrow> v > b)"

definition digit_char :: "nat \<Rightarrow> char" where
  "digit_char d = char_of (48 + d)"

fun str_nat :: "nat \<Rightarrow> string" where
  "str_nat n = (if n < 10 then [digit_char n] else str_nat (n div 10) @ [digit_char (n mod 10)])"

declare str_nat.simps [simp del]

definition str_int :: "int \<Rightarrow> string" where
  "str_int i = (if i < 0 then CHR ''-'' # str_nat (nat (- i)) else str_nat (nat i))"

text \<open>
  The digits after the decimal point of a fraction \<open>0 \<le> r < 1\<close>, at most \<open>n\<close> of them.
\<close>

fun frac_digits :: "nat \<Rightarrow> rat \<Rightarrow> string" where
  "frac_digits 0 r = []"
| "frac_digits (Suc n) r =
     (if r = 0 then []
      else digit_char (nat \<lfloor>r * 10\<rfloor>) # frac_digits n (r * 10 - of_int \<lfloor>r * 10\<rfloor>))"

text \<open>
  Python's \<^verbatim>\<open>str\<close> of a float that has a short decimal expansion and a magnitude
  below \<open>10^16\<close> (beyond that Python switches to exponent notation, which is not
  modelled): the integer part, a point, and the fraction digits, \<open>0\<close> when there are
  none.
\<close>

definition str_float :: "rat \<Rightarrow> string" where
  "str_float q =
     (let a = \<bar>q\<bar>; ip = \<lfloor>a\<rfloor>; fr = a - of_int ip
      in (if q < 0 then ''-'' else '''') @ str_nat (nat ip) @ ''.'' @
         (if fr = 0 then ''0'' else frac_digits 17 fr))"

text \<open>What the f-string \<^verbatim>\<open>f"{row['age']}"\<close> prints for a cell.\<close>

fun py_str :: "num \<Rightarrow> string" where
  "py_str NaN = ''nan''"
| "py_str (IntV i) = str_int i"
| "py_str (FloatV q) = str_float q"

subsection \<open>The table as read, and its coercion\<close>

text \<open>
  A row as \<^verbatim>\<open>pd.read_csv\<close> delivers it: every cell is its source text, \<open>None\<close>
  for an empty cell. Columns other than the six required ones are carried along by
  pandas and read by nothing here; they are left out.
\<close>

record raw_row =
  raw_patient_id :: "string option"
  raw_trial_site :: "string option"
  raw_enrollment_date :: "string option"
  raw_age :: "string option"
  raw_adverse_event :: "string option"
  raw_completed_trial :: "string option"

text \<open>The outcome of \<^verbatim>\<open>pd.read_csv\<close>: an exception, or the column names and the rows.\<close>

datatype csv = ReadError string | Table "string list" "raw_row list"

type_synonym date = "nat \<times> nat \<times> nat"

record row =
  patient_id :: "string option"
  trial_site :: "string option"
  enrollment_date :: "date option"
  age :: num
  adverse_event :: bool
  completed_trial :: bool

definition is_digit :: "char \<Rightarrow> bool" where
  "is_digit c = (48 \<le> (of_char c :: nat) \<and> (of_char c :: nat) \<le> 57)"

definition digit_val :: "char \<Rightarrow> nat" where
  "digit_val c = of_char c - 48"

definition digits_val :: "string \<Rightarrow> nat" where
  "digits_val s = foldl (\<lambda>a c. 10 * a + digit_val c) 0 s"

text \<open>
  \<^verbatim>\<open>pd.to_numeric(..., errors='coerce')\<close> on one text, for plain decimal literals:
  an optional sign, digits, and optionally a point and more digits (at least one digit
  in all). A literal without a point is an integer. Any other text is coerced to NaN.
  Texts in exponent notation, with blanks around them, or spelling an infinity also
  parse in pandas; they are outside the fragment modelled here.
\<close>

definition parse_unsigned :: "string \<Rightarrow> num" where
  "parse_unsigned s =
     (let ip = takeWhile is_digit s; rest = dropWhile is_digit s
      in if rest = [] then (if ip = [] then NaN else IntV (int (digits_val ip)))
         else if hd rest = CHR ''.'' \<and> list_all is_digit (tl rest) \<and> (ip \<noteq> [] \<or> tl rest \<noteq> [])
         then FloatV (of_nat (digits_val ip) + of_nat (digits_val (tl rest)) / 10 ^ length (tl rest))
         else NaN)"

fun negate :: "num \<Rightarrow> num" where
  "negate NaN = NaN"
| "negate (IntV i) = IntV (- i)"
| "negate (FloatV q) = FloatV (- q)"

fun parse_number :: "string \<Rightarrow> num" where
  "parse_number [] = NaN"
| "parse_number (c # s) =
     (if c = CHR ''-'' then negate (parse_unsigned s)
      else if c = CHR ''+'' then parse_unsigned s
      else parse_unsigned (c # s))"

fun is_int :: "num \<Rightarrow> bool" where
  "is_int (IntV i) = True"
| "is_int NaN = False"
| "is_int (FloatV q) = False"

fun to_float :: "num \<Rightarrow> num" where
  "to_float (IntV i) = FloatV (of_int i)"
| "to_float NaN = NaN"
| "to_float (FloatV q) = FloatV q"

text \<open>
  \<^verbatim>\<open>pd.to_numeric\<close> on the whole column: the result is an int64 column when every
  cell is an integer, and a float64 column otherwise (one NaN or one fraction turns
  every integer of the column into a float).
\<close>

definition to_numeric :: "string option list \<Rightarrow> num list" where
  "to_numeric col =
     (let ps = map (\<lambda>c. case c of None \<Rightarrow> NaN | Some s \<Rightarrow> parse_number s) col
      in if list_all is_int ps then ps else map to_float ps)"

definition is_leap :: "nat \<Rightarrow> bool" where
  "is_leap y = (y mod 4 = 0 \<and> (y mod 100 \<noteq> 0 \<or> y mod 400 = 0))"

definition days_in_month :: "nat \<Rightarrow> nat \<Rightarrow> nat" where
  "days_in_month y m =
     (if m = 2 then (if is_leap y then 29 else 28)
      else if m = 4 \<or> m = 6 \<or> m = 9 \<or> m = 11 then 30 else 31)"

text \<open>
  \<^verbatim>\<open>pd.to_datetime(..., format='%Y-%m-%d', errors='coerce')\<close> on one text: four
  digits, a dash, two digits, a dash, two digits, naming a day of the calendar; any
  other text is coerced to NaT. (Years outside the range of a pandas timestamp are not
  modelled.)
\<close>

definition parse_date :: "string \<Rightarrow> date option" where
  "parse_date s =
     (if length s = 10 \<and> s ! 4 = CHR ''-'' \<and> s ! 7 = CHR ''-''
         \<and> list_all is_digit (take 4 s) \<and> list_all is_digit (take 2 (drop 5 s))
         \<and> list_all is_digit (drop 8 s)
      then (let y = digits_val (take 4 s); m = digits_val (take 2 (drop 5 s));
                d = digits_val (drop 8 s)
            in if 1 \<le> m \<and> m \<le> 12 \<and> 1 \<le> d \<and> d \<le> days_in_month y m
               then Some (y, m, d) else None)
      else None)"

definition to_datetime :: "string option \<Rightarrow> date option" where
  "to_datetime c = (case c of None \<Rightarrow> None | Some s \<Rightarrow> parse_date s)"

definition lower_char :: "char \<Rightarrow> char" where
  "lower_char c =
     (let n = (of_char c :: nat) in if 65 \<le> n \<and> n \<le> 90 then char_of (n + 32) else c)"

text \<open>\<^verbatim>\<open>.astype(str)\<close> on a cell: a missing cell becomes the text nan.\<close>

definition astype_str :: "string option \<Rightarrow> string" where
  "astype_str c = (case c of None \<Rightarrow> ''nan'' | Some s \<Rightarrow> s)"

text \<open>\<^verbatim>\<open>.astype(str).str.lower().isin(['true', '1'])\<close>\<close>

definition to_flag :: "string option \<Rightarrow> bool" where
  "to_flag c = (map lower_char (astype_str c) \<in> set [''true'', ''1''])"

text \<open>
  Lines 70 to 82: the date, age and flag columns are overwritten by their coerced
  values. The age column is coerced as a whole, the others cell by cell.
\<close>

definition coerce_row :: "raw_row \<Rightarrow> num \<Rightarrow> row" where
  "coerce_row r a =
     \<lparr> patient_id = raw_patient_id r,
       trial_site = raw_trial_site r,
       enrollment_date = to_datetime (raw_enrollment_date r),
       age = a,
       adverse_event = to_flag (raw_adverse_event r),
       completed_trial = to_flag (raw_completed_trial r) \<rparr>"

definition coerce :: "raw_row list \<Rightarrow> row list" where
  "coerce rs = map (\<lambda>(r, a). coerce_row r a) (zip rs (to_numeric (map raw_age rs)))"

subsection \<open>Validation and partitioning\<close>

record invalid_record =
  record_of :: row
  validation_errors :: "string list"

text \<open>
  The data frame held by the analyzer once the schema check has passed: its rows, and
  the derived \<^verbatim>\<open>age_group\<close> column when one has been assigned (a label, or
  \<open>None\<close> for an age that falls in no bin).
\<close>

record frame =
  rows :: "row list"
  age_group :: "string option list option"

record analyzer =
  df :: "frame option"
  invalid_records :: "invalid_record list"
  errors :: "string list"

text \<open>\<^verbatim>\<open>__init__\<close>\<close>

definition init :: analyzer where
  "init = \<lparr> df = None, invalid_records = [], errors = [] \<rparr>"

definition required_cols :: "string list" where
  "required_cols = [''patient_id'', ''trial_site'', ''enrollment_date'',
                    ''age'', ''adverse_event'', ''completed_trial'']"

definition missing_cols :: "string list \<Rightarrow> string list" where
  "missing_cols columns = filter (\<lambda>col. col \<notin> set columns) required_cols"

text \<open>Python's rendering of a list of plain strings.\<close>

fun join :: "string \<Rightarrow> string list \<Rightarrow> string" where
  "join sep [] = []"
| "join sep [x] = x"
| "join sep (x # y # zs) = x @ sep @ join sep (y # zs)"

definition repr_list :: "string list \<Rightarrow> string" where
  "repr_list xs = ''['' @ join '', '' (map (\<lambda>x. [CHR 0x27] @ x @ [CHR 0x27]) xs) @ '']''"

text \<open>Lines 85 to 92: the mask of one row.\<close>

definition invalid_mask :: "row \<Rightarrow> bool" where
  "invalid_mask r =
     (enrollment_date r = None \<or>
      isna_num (age r) \<or>
      num_lt (age r) 0 \<or>
      num_gt (age r) 150 \<or>
      patient_id r = None \<or>
      trial_site r = None)"

text \<open>Boolean indexing \<^verbatim>\<open>df[mask]\<close>: the rows whose mask entry is True, in order.\<close>

definition boolean_index :: "'a list \<Rightarrow> bool list \<Rightarrow> 'a list" where
  "boolean_index xs flags = map fst (filter snd (zip xs flags))"

text \<open>Lines 102 to 110: the reasons of one row, each test appending to the list.\<close>

definition reasons_of :: "row \<Rightarrow> string list" where
  "reasons_of r =
     (let reasons = [];
          reasons = (if enrollment_date r = None
                     then reasons @ [''Invalid enrollment date''] else reasons);
          reasons = (if isna_num (age r) \<or> num_lt (age r) 0 \<or> num_gt (age r) 150
                     then reasons @ [''Invalid age: '' @ py_str (age r)] else reasons);
          reasons = (if patient_id r = None
                     then reasons @ [''Missing patient ID''] else reasons);
          reasons = (if trial_site r = None
                     then reasons @ [''Missing trial site''] else reasons)
      in reasons)"

text \<open>Lines 101 to 114: the loop over the masked rows, appending one record per row.\<close>

fun collect_invalid :: "row list \<Rightarrow> invalid_record list \<Rightarrow> invalid_record list" where
  "collect_invalid [] acc = acc"
| "collect_invalid (r # rs) acc =
     collect_invalid rs (acc @ [\<lparr> record_of = r, validation_errors = reasons_of r \<rparr>])"

text \<open>
  What \<^verbatim>\<open>load_and_validate_data\<close> leaves behind. After a failed schema check the
  analyzer still holds the unvalidated table in \<^verbatim>\<open>self.df\<close> and no caller uses it
  again; that outcome carries the analyzer's error list only. Every other return is
  the boolean result and the analyzer.
\<close>

datatype load_result = SchemaError "string list" | Returned bool analyzer

definition load_and_validate_data :: "csv \<Rightarrow> analyzer \<Rightarrow> load_result" where
  "load_and_validate_data file self =
     (case file of
        ReadError e \<Rightarrow>
          Returned False (self\<lparr> errors := errors self @ [''Error loading CSV: '' @ e] \<rparr>)
      | Table columns raw \<Rightarrow>
          if missing_cols columns \<noteq> []
          then SchemaError (errors self @ [''Missing columns: '' @ repr_list (missing_cols columns)])
          else
            (let cand = coerce raw;
                 flags = map invalid_mask cand;
                 invalid = collect_invalid (boolean_index cand flags) [];
                 errs = (if length invalid > 0
                         then errors self @ [''Total: '' @ str_nat (length invalid) @
                                             '' invalid record(s) excluded from analysis'']
                         else errors self);
                 valid = boolean_index cand (map Not flags);
                 self = self\<lparr> df := Some \<lparr> rows = valid, age_group = None \<rparr>,
                              invalid_records := invalid \<rparr>
             in if length valid = 0
                then Returned False (self\<lparr> errors := errs @ [''No valid records found after validation''] \<rparr>)
                else Returned True (self\<lparr> errors := errs \<rparr>)))"

subsection \<open>Summary statistics\<close>

text \<open>
  The dictionaries the analyzer returns: keys are strings, or pairs of strings for the
  columns of an aggregated frame; a Python dict is an association list in insertion
  order, the empty dict the empty list.
\<close>

datatype key = K string | KT string string

datatype val =
    VInt int
  | VNum num
  | VCorr "real option"
  | VDict "(key \<times> val) list"
  | VRecords "invalid_record list"

type_synonym dict = "(key \<times> val) list"

text \<open>\<^verbatim>\<open>Series.sum()\<close> of a boolean column: the number of True entries.\<close>

definition bool_sum :: "bool list \<Rightarrow> int" where
  "bool_sum bs = int (length (filter (\<lambda>b. b) bs))"

text \<open>
  True division of two numpy integers. A zero divisor raises nothing: numpy gives nan
  for 0/0, and the dividends here are counts over the rows the divisor counts.
\<close>

definition np_div :: "int \<Rightarrow> int \<Rightarrow> num" where
  "np_div a b = (if b = 0 then NaN else FloatV (of_int a / of_int b))"

fun num_mul :: "num \<Rightarrow> rat \<Rightarrow> num" where
  "num_mul NaN c = NaN"
| "num_mul (IntV i) c = FloatV (of_int i * c)"
| "num_mul (FloatV q) c = FloatV (q * c)"

text \<open>Rounding to the nearest integer, a tie going to the even neighbour.\<close>

definition round_half_even :: "'a::floor_ceiling \<Rightarrow> int" where
  "round_half_even x =
     (let f = \<lfloor>x\<rfloor>; d = x - of_int f
      in if d < 1 / 2 then f else if 1 / 2 < d then f + 1 else if even f then f else f + 1)"

definition round_to :: "nat \<Rightarrow> 'a::{floor_ceiling} \<Rightarrow> 'a" where
  "round_to d x = of_int (round_half_even (x * 10 ^ d)) / 10 ^ d"

text \<open>\<^verbatim>\<open>round(x, d)\<close> and \<^verbatim>\<open>.round(d)\<close>: integers and NaN are left as they are.\<close>

fun py_round :: "num \<Rightarrow> nat \<Rightarrow> num" where
  "py_round NaN d = NaN"
| "py_round (IntV i) d = IntV i"
| "py_round (FloatV q) d = FloatV (round_to d q)"

text \<open>\<^verbatim>\<open>Series.mean()\<close>: the mean of the cells that are not NaN, NaN when there are none.\<close>

definition mean :: "num list \<Rightarrow> num" where
  "mean xs =
     (let vs = List.map_filter num_value xs
      in if vs = [] then NaN else FloatV (sum_list vs / of_nat (length vs)))"

text \<open>
  \<^verbatim>\<open>Series.value_counts().to_dict()\<close>: every label that occurs, with the number of
  its occurrences; missing cells are not counted. Python compares dicts without regard
  to order, and the order pandas gives the labels (by falling count) is not modelled.
\<close>

definition value_counts :: "string option list \<Rightarrow> dict" where
  "value_counts col =
     map (\<lambda>s. (K s, VInt (int (length (filter (\<lambda>c. c = Some s) col)))))
       (remdups (List.map_filter (\<lambda>c. c) col))"

text \<open>One stratified completion rate, lines 169 to 176.\<close>

definition completion_rate_of :: "row list \<Rightarrow> val" where
  "completion_rate_of part =
     (if length part > 0
      then VNum (py_round (num_mul (np_div (bool_sum (map completed_trial part))
                                            (int (length part))) 100) 2)
      else VInt 0)"

definition calculate_statistics :: "analyzer \<Rightarrow> dict \<times> analyzer" where
  "calculate_statistics self =
     (case df self of
        None \<Rightarrow> ([], self)
      | Some d \<Rightarrow>
          if length (rows d) = 0 then ([], self)
          else
            (let total_patients = int (length (rows d));
                 stats =
                   [(K ''total_patients'', VInt total_patients),
                    (K ''patients_per_site'', VDict (value_counts (map trial_site (rows d)))),
                    (K ''average_age'', VNum (py_round (mean (map age (rows d))) 2)),
                    (K ''completion_rate_percent'',
                       VNum (py_round (num_mul (np_div (bool_sum (map completed_trial (rows d)))
                                                       total_patients) 100) 2)),
                    (K ''adverse_event_rate_percent'',
                       VNum (py_round (num_mul (np_div (bool_sum (map adverse_event (rows d)))
                                                       total_patients) 100) 2))];
                 with_adverse = boolean_index (rows d) (map adverse_event (rows d));
                 without_adverse = boolean_index (rows d) (map Not (map adverse_event (rows d)));
                 stats = stats @
                   [(K ''completion_rate_with_adverse_percent'', completion_rate_of with_adverse)];
                 stats = stats @
                   [(K ''completion_rate_without_adverse_percent'',
                       completion_rate_of without_adverse)];
                 stats = stats @
                   [(K ''data_quality'',
                       VDict [(K ''valid_records'', VInt total_patients),
                              (K ''invalid_records'', VInt (int (length (invalid_records self)))),
                              (K ''invalid_record_details'',
                                 VRecords (if invalid_records self \<noteq> []
                                           then invalid_records self else []))])]
             in (stats, self)))"

subsection \<open>Cross analysis\<close>

text \<open>
  \<^verbatim>\<open>pd.cut(x, bins, labels)\<close> with its defaults (\<^verbatim>\<open>right=True\<close>,
  \<^verbatim>\<open>include_lowest=False\<close>): the label of the interval \<open>(lo, hi]\<close> of two adjacent
  edges that holds the value; no label for NaN or for a value in no interval.
\<close>

fun cut :: "rat list \<Rightarrow> string list \<Rightarrow> rat \<Rightarrow> string option" where
  "cut (lo # hi # bins) (l # labels) v =
     (if lo < v \<and> v \<le> hi then Some l else cut (hi # bins) labels v)"
| "cut bins labels v = None"

definition age_bins :: "rat list" where
  "age_bins = [0, 35, 50, 65, 150]"

definition age_labels :: "string list" where
  "age_labels = [''18-35'', ''36-50'', ''51-65'', ''65+'']"

definition age_group_of :: "num \<Rightarrow> string option" where
  "age_group_of x = (case num_value x of None \<Rightarrow> None | Some v \<Rightarrow> cut age_bins age_labels v)"

text \<open>Lines 313 to 315: the column \<^verbatim>\<open>age_group\<close> is assigned on \<^verbatim>\<open>self.df\<close> itself.\<close>

definition assign_age_group :: "frame \<Rightarrow> frame" where
  "assign_age_group d = d\<lparr> age_group := Some (map (\<lambda>r. age_group_of (age r)) (rows d)) \<rparr>"

text \<open>
  The aggregates of one group, rounded to two decimals: the sum, count and mean of
  \<^verbatim>\<open>completed_trial\<close>, the sum of \<^verbatim>\<open>adverse_event\<close> and the mean of \<^verbatim>\<open>age\<close>.
\<close>

definition completed_sum :: "row list \<Rightarrow> val" where
  "completed_sum g = VInt (bool_sum (map completed_trial g))"

definition completed_count :: "row list \<Rightarrow> val" where
  "completed_count g = VInt (int (length g))"

definition completed_mean :: "row list \<Rightarrow> val" where
  "completed_mean g =
     VNum (py_round (np_div (bool_sum (map completed_trial g)) (int (length g))) 2)"

definition adverse_sum :: "row list \<Rightarrow> val" where
  "adverse_sum g = VInt (bool_sum (map adverse_event g))"

definition age_mean :: "row list \<Rightarrow> val" where
  "age_mean g = VNum (py_round (mean (map age g)) 2)"

text \<open>
  \<^verbatim>\<open>groupby('trial_site').agg(...).round(2).to_dict()\<close>: one entry per aggregated
  column, each a dict from the site to its aggregate. Rows without a site form no group.
\<close>

definition site_analysis :: "frame \<Rightarrow> dict" where
  "site_analysis d =
     (let sites = remdups (List.map_filter trial_site (rows d));
          column = (\<lambda>agg. VDict (map (\<lambda>s. (K s, agg (filter (\<lambda>r. trial_site r = Some s) (rows d)))) sites))
      in [(KT ''completed_trial'' ''sum'', column completed_sum),
          (KT ''completed_trial'' ''count'', column completed_count),
          (KT ''completed_trial'' ''mean'', column completed_mean),
          (KT ''adverse_event'' ''sum'', column adverse_sum),
          (KT ''age'' ''mean'', column age_mean)])"

text \<open>
  \<^verbatim>\<open>groupby('age_group').agg(...).round(2).to_dict()\<close> on the categorical column:
  one group per label, empty ones included (the default of pandas before version 3);
  rows with no label form no group.
\<close>

definition age_group_analysis :: "frame \<Rightarrow> dict" where
  "age_group_analysis d =
     (let groups = (case age_group d of None \<Rightarrow> [] | Some g \<Rightarrow> g);
          column = (\<lambda>agg. VDict (map (\<lambda>l. (K l, agg (boolean_index (rows d) (map (\<lambda>g. g = Some l) groups))))
                                       age_labels))
      in [(KT ''completed_trial'' ''sum'', column completed_sum),
          (KT ''completed_trial'' ''count'', column completed_count),
          (KT ''completed_trial'' ''mean'', column completed_mean)])"

text \<open>
  Pearson's coefficient of two columns over the rows where both have a value, as
  \<^verbatim>\<open>DataFrame.corr()\<close> computes it: the co-moment over the root of the product of
  the two second moments, and NaN when that root is zero. The square root makes this
  the one definition here that does not compute.
\<close>

definition pearson :: "rat option list \<Rightarrow> rat option list \<Rightarrow> real option" where
  "pearson xs ys =
     (let ps = List.map_filter (\<lambda>(x, y). case (x, y) of (Some a, Some b) \<Rightarrow> Some (real_of_rat a, real_of_rat b) | _ \<Rightarrow> None)
                 (zip xs ys);
          n = real (length ps);
          mx = sum_list (map fst ps) / n;
          my = sum_list (map snd ps) / n;
          covxy = sum_list (map (\<lambda>(x, y). (x - mx) * (y - my)) ps);
          ssx = sum_list (map (\<lambda>(x, y). (x - mx) ^ 2) ps);
          ssy = sum_list (map (\<lambda>(x, y). (y - my) ^ 2) ps);
          divisor = sqrt (ssx * ssy)
      in if divisor \<noteq> 0 then Some (covxy / divisor) else None)"

definition flag_value :: "bool \<Rightarrow> rat option" where
  "flag_value b = Some (if b then 1 else 0)"

text \<open>Lines 321 and 322: the matrix over the three columns, rounded to three decimals.\<close>

definition correlations :: "frame \<Rightarrow> dict" where
  "correlations d =
     (let numeric_cols =
            [(''age'', map (\<lambda>r. num_value (age r)) (rows d)),
             (''adverse_event'', map (\<lambda>r. flag_value (adverse_event r)) (rows d)),
             (''completed_trial'', map (\<lambda>r. flag_value (completed_trial r)) (rows d))]
      in map (\<lambda>(c, xs). (K c, VDict (map (\<lambda>(c', ys). (K c', VCorr (map_option (round_to 3) (pearson ys xs))))
                                          numeric_cols)))
           numeric_cols)"

definition get_advanced_analysis :: "analyzer \<Rightarrow> dict \<times> analyzer" where
  "get_advanced_analysis self =
     (case df self of
        None \<Rightarrow> ([], self)
      | Some d \<Rightarrow>
          if length (rows d) = 0 then ([], self)
          else
            (let by_site = site_analysis d;
                 d = assign_age_group d;
                 self = self\<lparr> df := Some d \<rparr>;
                 by_age_group = age_group_analysis d;
                 corr = correlations d
             in ([(K ''site_performance'', VDict by_site),
                  (K ''age_group_analysis'', VDict by_age_group),
                  (K ''correlations'', VDict corr)], self)))"

subsection \<open>Site grading\<close>

text \<open>
  The \<^verbatim>\<open>CASE\<close> expression of the site grading query, as a function of the value it
  tests (the query applies it to each site's completion percentage, rounded to two
  decimals).
\<close>

definition grade :: "rat \<Rightarrow> string" where
  "grade completion_pct =
     (if completion_pct \<ge> 90 then ''A (Excellent)''
      else if completion_pct \<ge> 70 then ''B (Good)''
      else if completion_pct \<ge> 50 then ''C (Fair)''
      else ''D (Poor)'')"

text \<open>The letter a grade starts with.\<close>

definition grade_letter :: "rat \<Rightarrow> string" where
  "grade_letter completion_pct = take 1 (grade completion_pct)"

subsection \<open>Example tables\<close>

definition csv_row ::
  "string option \<Rightarrow> string option \<Rightarrow> string \<Rightarrow> string \<Rightarrow> string \<Rightarrow> string \<Rightarrow> raw_row" where
  "csv_row p s d a ae c =
     \<lparr> raw_patient_id = p, raw_trial_site = s, raw_enrollment_date = Some d,
       raw_age = Some a, raw_adverse_event = Some ae, raw_completed_trial = Some c \<rparr>"

text \<open>Three valid rows (two of them at the bounds of the age range) among three invalid ones.\<close>

definition mixed_table :: "raw_row list" where
  "mixed_table =
     [csv_row (Some ''P001'') (Some ''SiteA'') ''2024-01-15'' ''20'' ''true'' ''false'',
      csv_row (Some ''P002'') (Some ''SiteB'') ''2024-02-30'' ''abc'' ''false'' ''true'',
      csv_row None (Some ''SiteA'') ''2024-03-01'' ''200'' ''false'' ''true'',
      csv_row (Some ''P004'') (Some ''SiteB'') ''2024-03-02'' ''0'' ''False'' ''True'',
      csv_row (Some ''P005'') None ''2024-03-03'' ''150'' ''1'' ''0'',
      csv_row (Some ''P006'') (Some ''SiteA'') ''2024-03-04'' ''150'' ''TRUE'' ''1'']"


text \<open>Every row has age 200.\<close>

definition overage_table :: "raw_row list" where
  "overage_table =
     [csv_row (Some ''P001'') (Some ''SiteA'') ''2024-01-15'' ''200'' ''true'' ''false'',
      csv_row (Some ''P002'') (Some ''SiteB'') ''2024-01-16'' ''200'' ''false'' ''true'']"

text \<open>Three valid rows of ages 20, 40 and 60; the first had an adverse event and did not complete.\<close>

definition three_valid_table :: "raw_row list" where
  "three_valid_table =
     [csv_row (Some ''P001'') (Some ''SiteA'') ''2024-01-15'' ''20'' ''true'' ''false'',
      csv_row (Some ''P002'') (Some ''SiteB'') ''2024-01-16'' ''40'' ''false'' ''true'',
      csv_row (Some ''P003'') (Some ''SiteA'') ''2024-01-17'' ''60'' ''false'' ''true'']"

text \<open>A valid row of age 0.\<close>

definition newborn :: row where
  "newborn =
     \<lparr> patient_id = Some ''P001'', trial_site = Some ''SiteA'',
       enrollment_date = Some (2024, 1, 15), age = IntV 0,
       adverse_event = False, completed_trial = True \<rparr>"


text \<open>The analyzers that loading \<open>three_valid_table\<close> and \<open>uneventful_table\<close> leaves.\<close>

definition three_valid :: analyzer where
  "three_valid =
     \<lparr> df = Some \<lparr> rows =
           [\<lparr> patient_id = Some ''P001'', trial_site = Some ''SiteA'',
               enrollment_date = Some (2024, 1, 15), age = IntV 20,
               adverse_event = True, completed_trial = False \<rparr>,
            \<lparr> patient_id = Some ''P002'', trial_site = Some ''SiteB'',
               enrollment_date = Some (2024, 1, 16), age = IntV 40,
               adverse_event = False, completed_trial = True \<rparr>,
            \<lparr> patient_id = Some ''P003'', trial_site = Some ''SiteA'',
               enrollment_date = Some (2024, 1, 17), age = IntV 60,
               adverse_event = False, completed_trial = True \<rparr>],
           age_group = None \<rparr>,
       invalid_records = [], errors = [] \<rparr>"


text \<open>The analyzer that loading \<open>overage_table\<close> leaves: no valid row.\<close>

definition all_invalid :: analyzer where
  "all_invalid =
     \<lparr> df = Some \<lparr> rows = [], age_group = None \<rparr>,
       invalid_records = map (\<lambda>r. \<lparr> record_of = r, validation_errors = [''Invalid age: 200''] \<rparr>)
                              (coerce overage_table),
       errors = [''Total: 2 invalid record(s) excluded from analysis'',
                 ''No valid records found after validation''] \<rparr>"

section \<open>Properties\<close>

subsection \<open>Loading and partitioning\<close>


lemma boolean_index_map: "boolean_index xs (map P xs) = filter P xs"
  by (induction xs) (simp_all add: boolean_index_def)

lemma boolean_index_map_Not:
  "boolean_index xs (map Not (map P xs)) = filter (\<lambda>x. \<not> P x) xs"
  by (induction xs) (simp_all add: boolean_index_def)

lemma collect_invalid_eq:
  "collect_invalid rs acc =
     acc @ map (\<lambda>r. \<lparr> record_of = r, validation_errors = reasons_of r \<rparr>) rs"
  by (induction rs arbitrary: acc) simp_all

lemma length_to_numeric: "length (to_numeric col) = length col"
  by (simp add: to_numeric_def Let_def)

lemma length_coerce: "length (coerce raw) = length raw"
  by (simp add: coerce_def length_to_numeric)

lemma coerce_member:
  assumes "r \<in> set (coerce raw)"
  shows "\<exists>x \<in> set raw. \<exists>a. r = coerce_row x a"
proof -
  from assms obtain x a where "(x, a) \<in> set (zip raw (to_numeric (map raw_age raw)))"
    and "r = coerce_row x a"
    by (auto simp: coerce_def)
  then show ?thesis
    by (blast dest: set_zip_leftD)
qed

lemma load_Table:
  assumes "load_and_validate_data (Table columns raw) self = Returned ok st"
  shows "df st = Some \<lparr> rows = filter (\<lambda>r. \<not> invalid_mask r) (coerce raw), age_group = None \<rparr>"
    and "invalid_records st =
           map (\<lambda>r. \<lparr> record_of = r, validation_errors = reasons_of r \<rparr>)
             (filter invalid_mask (coerce raw))"
    and "ok = (filter (\<lambda>r. \<not> invalid_mask r) (coerce raw) \<noteq> [])"
    and "missing_cols columns = []"
proof -
  have v: "boolean_index (coerce raw) (map Not (map invalid_mask (coerce raw)))
           = filter (\<lambda>r. \<not> invalid_mask r) (coerce raw)"
    by (rule boolean_index_map_Not)
  have i: "collect_invalid (boolean_index (coerce raw) (map invalid_mask (coerce raw))) []
           = map (\<lambda>r. \<lparr> record_of = r, validation_errors = reasons_of r \<rparr>)
               (filter invalid_mask (coerce raw))"
    by (simp only: boolean_index_map collect_invalid_eq append_Nil)
  from assms show m: "missing_cols columns = []"
    by (simp add: load_and_validate_data_def split: if_splits)
  from assms have *: "Returned ok st =
    (let cand = coerce raw;
                 flags = map invalid_mask cand;
                 invalid = collect_invalid (boolean_index cand flags) [];
                 errs = (if length invalid > 0
                         then errors self @ [''Total: '' @ str_nat (length invalid) @
                                             '' invalid record(s) excluded from analysis'']
                         else errors self);
                 valid = boolean_index cand (map Not flags);
                 self = self\<lparr> df := Some \<lparr> rows = valid, age_group = None \<rparr>,
                              invalid_records := invalid \<rparr>
             in if length valid = 0
                then Returned False (self\<lparr> errors := errs @ [''No valid records found after validation''] \<rparr>)
                else Returned True (self\<lparr> errors := errs \<rparr>))"
    by (simp only: load_and_validate_data_def csv.case m if_False simp_thms)
  from * show "df st = Some \<lparr> rows = filter (\<lambda>r. \<not> invalid_mask r) (coerce raw), age_group = None \<rparr>"
    unfolding Let_def v i by (auto split: if_splits)
  from * show "invalid_records st =
           map (\<lambda>r. \<lparr> record_of = r, validation_errors = reasons_of r \<rparr>)
             (filter invalid_mask (coerce raw))"
    unfolding Let_def v i by (auto split: if_splits)
  from * show "ok = (filter (\<lambda>r. \<not> invalid_mask r) (coerce raw) \<noteq> [])"
    unfolding Let_def v i by (auto split: if_splits)
qed

lemma load_Table_ok:
  assumes "missing_cols columns = []"
  shows "\<exists>ok st. load_and_validate_data (Table columns raw) self = Returned ok st"
  by (cases "boolean_index (coerce raw) (map Not (map invalid_mask (coerce raw))) = []")
    (auto simp: load_and_validate_data_def Let_def assms)

text \<open>
  C4: whatever the table, once the schema check has passed the valid rows and the
  invalid records together are as many as the input rows, and each part holds its
  rows in input order: the working set is the candidate sequence filtered by validity,
  the invalid set the same sequence filtered by invalidity.
\<close>

theorem partition_total_stable:
  assumes "load_and_validate_data (Table columns raw) self = Returned ok st"
  shows "\<exists>f. df st = Some f
           \<and> length (rows f) + length (invalid_records st) = length raw
           \<and> length (coerce raw) = length raw
           \<and> rows f = filter (\<lambda>r. \<not> invalid_mask r) (coerce raw)
           \<and> map record_of (invalid_records st) = filter invalid_mask (coerce raw)"
proof -
  let ?c = "coerce raw"
  have len: "length (filter (\<lambda>r. \<not> invalid_mask r) ?c) + length (filter invalid_mask ?c) = length raw"
    using sum_length_filter_compl [of invalid_mask ?c] by (simp add: length_coerce)
  have m: "map record_of (invalid_records st) = filter invalid_mask ?c"
    by (simp add: load_Table(2) [OF assms] comp_def)
  have l: "length (invalid_records st) = length (filter invalid_mask ?c)"
    by (simp add: load_Table(2) [OF assms])
  show ?thesis
    using len m l by (simp add: load_Table(1) [OF assms] length_coerce)
qed

lemma invalid_mask_False:
  assumes "\<not> invalid_mask r"
  shows "(\<exists>v. num_value (age r) = Some v \<and> 0 \<le> v \<and> v \<le> 150)
         \<and> enrollment_date r \<noteq> None \<and> patient_id r \<noteq> None \<and> trial_site r \<noteq> None"
  using assms
  by (cases "age r") (auto simp: invalid_mask_def num_lt_def num_gt_def)

text \<open>
  C5: every row of the working set has an age between 0 and 150 (both bounds
  included), an enrollment date that parsed from its source text, a patient id and a
  trial site.
\<close>

theorem working_set_valid:
  assumes "load_and_validate_data (Table columns raw) self = Returned ok st"
    and "df st = Some f" and "r \<in> set (rows f)"
  shows "(\<exists>v. num_value (age r) = Some v \<and> 0 \<le> v \<and> v \<le> 150)
         \<and> enrollment_date r \<noteq> None \<and> patient_id r \<noteq> None \<and> trial_site r \<noteq> None
         \<and> (\<exists>x \<in> set raw. \<exists>s. raw_enrollment_date x = Some s \<and> parse_date s = enrollment_date r
               \<and> raw_patient_id x = patient_id r \<and> raw_trial_site x = trial_site r)"
proof -
  from load_Table(1) [OF assms(1)] assms(2,3)
  have mem: "r \<in> set (coerce raw)" and ok: "\<not> invalid_mask r" by auto
  from coerce_member [OF mem] obtain x a where x: "x \<in> set raw" and r: "r = coerce_row x a"
    by blast
  from invalid_mask_False [OF ok] have v: "(\<exists>v. num_value (age r) = Some v \<and> 0 \<le> v \<and> v \<le> 150)
         \<and> enrollment_date r \<noteq> None \<and> patient_id r \<noteq> None \<and> trial_site r \<noteq> None" .
  then have "enrollment_date r \<noteq> None" by simp
  then obtain s where "raw_enrollment_date x = Some s" and "parse_date s = enrollment_date r"
    using r by (cases "raw_enrollment_date x") (auto simp: coerce_row_def to_datetime_def)
  with x r have "\<exists>x \<in> set raw. \<exists>s. raw_enrollment_date x = Some s \<and> parse_date s = enrollment_date r
               \<and> raw_patient_id x = patient_id r \<and> raw_trial_site x = trial_site r"
    by (auto simp: coerce_row_def)
  with v show ?thesis by blast
qed


subsection \<open>The partition on the mixed table\<close>

lemma mixed_valid: "filter (\<lambda>r. \<not> invalid_mask r) (coerce mixed_table) =
  [\<lparr> patient_id = Some ''P001'', trial_site = Some ''SiteA'', enrollment_date = Some (2024, 1, 15),
      age = FloatV 20, adverse_event = True, completed_trial = False \<rparr>,
   \<lparr> patient_id = Some ''P004'', trial_site = Some ''SiteB'', enrollment_date = Some (2024, 3, 2),
      age = FloatV 0, adverse_event = False, completed_trial = True \<rparr>,
   \<lparr> patient_id = Some ''P006'', trial_site = Some ''SiteA'', enrollment_date = Some (2024, 3, 4),
      age = FloatV 150, adverse_event = True, completed_trial = True \<rparr>]"
  by code_simp

lemma required_present: "missing_cols required_cols = []"
  by code_simp

theorem partition_total_stable_witness:
  "\<exists>ok st f. load_and_validate_data (Table required_cols mixed_table) init = Returned ok st
      \<and> df st = Some f \<and> length (rows f) = 3 \<and> length (invalid_records st) = 3
      \<and> length (rows f) + length (invalid_records st) = length mixed_table
      \<and> map patient_id (rows f) = [Some ''P001'', Some ''P004'', Some ''P006'']
      \<and> map (patient_id \<circ> record_of) (invalid_records st) = [Some ''P002'', None, Some ''P005'']"
proof -
  from load_Table_ok [OF required_present] obtain ok st
    where h: "load_and_validate_data (Table required_cols mixed_table) init = Returned ok st"
    by blast
  from partition_total_stable [OF h] obtain f where f: "df st = Some f"
    and n: "length (rows f) + length (invalid_records st) = length mixed_table"
    and v: "rows f = filter (\<lambda>r. \<not> invalid_mask r) (coerce mixed_table)"
    and i: "map record_of (invalid_records st) = filter invalid_mask (coerce mixed_table)"
    by blast
  have lv: "length (rows f) = 3" unfolding v by (simp add: mixed_valid)
  have lt: "length mixed_table = 6" by (simp add: mixed_table_def)
  have li: "length (invalid_records st) = 3" using n lv lt by simp
  have pv: "map patient_id (rows f) = [Some ''P001'', Some ''P004'', Some ''P006'']"
    unfolding v by (simp add: mixed_valid)
  have "map patient_id (map record_of (invalid_records st)) = [Some ''P002'', None, Some ''P005'']"
    unfolding i by code_simp
  then have pi: "map (patient_id \<circ> record_of) (invalid_records st) = [Some ''P002'', None, Some ''P005'']"
    by simp
  show ?thesis
    by (rule exI [of _ ok], rule exI [of _ st], rule exI [of _ f]) (simp add: h f lv li lt pv pi)
qed


theorem working_set_valid_witness:
  "\<exists>ok st f r. load_and_validate_data (Table required_cols mixed_table) init = Returned ok st
      \<and> df st = Some f \<and> r \<in> set (rows f) \<and> patient_id r = Some ''P004'' \<and> age r = FloatV 0
      \<and> (\<exists>v. num_value (age r) = Some v \<and> 0 \<le> v \<and> v \<le> 150)
      \<and> enrollment_date r \<noteq> None \<and> trial_site r \<noteq> None"
proof -
  from load_Table_ok [OF required_present] obtain ok st
    where h: "load_and_validate_data (Table required_cols mixed_table) init = Returned ok st"
    by blast
  let ?r = "\<lparr> patient_id = Some ''P004'', trial_site = Some ''SiteB'',
      enrollment_date = Some (2024, 3, 2), age = FloatV 0, adverse_event = False,
      completed_trial = True \<rparr>"
  have f: "df st = Some \<lparr> rows = filter (\<lambda>r. \<not> invalid_mask r) (coerce mixed_table), age_group = None \<rparr>"
    by (rule load_Table(1) [OF h])
  have m: "?r \<in> set (rows \<lparr> rows = filter (\<lambda>r. \<not> invalid_mask r) (coerce mixed_table), age_group = None \<rparr>)"
    by (simp add: mixed_valid)
  from working_set_valid [OF h f m]
  have "(\<exists>v. num_value (age ?r) = Some v \<and> 0 \<le> v \<and> v \<le> 150)
         \<and> enrollment_date ?r \<noteq> None \<and> trial_site ?r \<noteq> None" by blast
  with h f m show ?thesis
    by (intro exI [of _ ok] exI [of _ st] exI [of _ "\<lparr> rows = filter (\<lambda>r. \<not> invalid_mask r) (coerce mixed_table), age_group = None \<rparr>"] exI [of _ ?r]) simp
qed

lemma reasons_of_eq:
  "reasons_of r =
     (if enrollment_date r = None then [''Invalid enrollment date''] else []) @
     (if isna_num (age r) \<or> num_lt (age r) 0 \<or> num_gt (age r) 150
      then [''Invalid age: '' @ py_str (age r)] else []) @
     (if patient_id r = None then [''Missing patient ID''] else []) @
     (if trial_site r = None then [''Missing trial site''] else [])"
  by (simp add: reasons_of_def Let_def)

lemma invalid_records_member:
  assumes "load_and_validate_data (Table columns raw) self = Returned ok st"
    and "ir \<in> set (invalid_records st)"
  shows "invalid_mask (record_of ir)" and "validation_errors ir = reasons_of (record_of ir)"
    and "record_of ir \<in> set (coerce raw)"
  using assms(2) unfolding load_Table(2) [OF assms(1)] by auto

text \<open>
  C6: the reasons of an invalid record are one entry per failing predicate, in the
  order enrollment date, age, patient id, trial site; there are as many reasons as
  failing predicates, and at least one.
\<close>

theorem reasons_one_per_failing_predicate:
  assumes "load_and_validate_data (Table columns raw) self = Returned ok st"
    and "ir \<in> set (invalid_records st)"
    and "r = record_of ir"
  shows "validation_errors ir =
           (if enrollment_date r = None then [''Invalid enrollment date''] else []) @
           (if isna_num (age r) \<or> num_lt (age r) 0 \<or> num_gt (age r) 150
            then [''Invalid age: '' @ py_str (age r)] else []) @
           (if patient_id r = None then [''Missing patient ID''] else []) @
           (if trial_site r = None then [''Missing trial site''] else [])
         \<and> length (validation_errors ir) =
             length (filter (\<lambda>b. b) [enrollment_date r = None,
                       isna_num (age r) \<or> num_lt (age r) 0 \<or> num_gt (age r) 150,
                       patient_id r = None, trial_site r = None])
         \<and> validation_errors ir \<noteq> []"
proof -
  have e: "validation_errors ir = reasons_of r"
    using invalid_records_member(2) [OF assms(1,2)] assms(3) by simp
  have m: "invalid_mask r"
    using invalid_records_member(1) [OF assms(1,2)] assms(3) by simp
  have ne: "reasons_of r \<noteq> []"
    using m unfolding reasons_of_eq invalid_mask_def by auto
  have len: "length (reasons_of r) = length (filter (\<lambda>b. b) [enrollment_date r = None,
                       isna_num (age r) \<or> num_lt (age r) 0 \<or> num_gt (age r) 150,
                       patient_id r = None, trial_site r = None])"
    unfolding reasons_of_eq by simp
  show ?thesis
    unfolding e using ne len reasons_of_eq [of r] by simp
qed


lemma mixed_invalid:
  "map (\<lambda>r. (patient_id r, age r, reasons_of r)) (filter invalid_mask (coerce mixed_table)) =
     [(Some ''P002'', NaN, [''Invalid enrollment date'', ''Invalid age: nan'']),
      (None, FloatV 200, [''Invalid age: 200.0'', ''Missing patient ID'']),
      (Some ''P005'', FloatV 150, [''Missing trial site''])]"
  by code_simp




theorem reasons_one_per_failing_predicate_witness:
  "\<exists>ok st ir. load_and_validate_data (Table required_cols mixed_table) init = Returned ok st
      \<and> ir \<in> set (invalid_records st)
      \<and> patient_id (record_of ir) = Some ''P002''
      \<and> validation_errors ir = [''Invalid enrollment date'', ''Invalid age: nan'']
      \<and> length (validation_errors ir) = 2"
proof -
  from load_Table_ok [OF required_present] obtain ok st
    where h: "load_and_validate_data (Table required_cols mixed_table) init = Returned ok st"
    by blast
  have "map (\<lambda>ir. (patient_id (record_of ir), age (record_of ir), validation_errors ir))
          (invalid_records st) =
        map (\<lambda>r. (patient_id r, age r, reasons_of r)) (filter invalid_mask (coerce mixed_table))"
    unfolding load_Table(2) [OF h] by (simp add: comp_def)
  then have "(Some ''P002'', NaN, [''Invalid enrollment date'', ''Invalid age: nan''])
      \<in> set (map (\<lambda>ir. (patient_id (record_of ir), age (record_of ir), validation_errors ir))
          (invalid_records st))"
    unfolding mixed_invalid by simp
  then obtain ir where ir: "ir \<in> set (invalid_records st)"
    and p: "patient_id (record_of ir) = Some ''P002''" and a: "age (record_of ir) = NaN"
    and v: "validation_errors ir = [''Invalid enrollment date'', ''Invalid age: nan'']"
    by auto
  from reasons_one_per_failing_predicate [OF h ir refl]
  have "length (validation_errors ir) =
             length (filter (\<lambda>b. b) [enrollment_date (record_of ir) = None,
                       isna_num (age (record_of ir)) \<or> num_lt (age (record_of ir)) 0 \<or> num_gt (age (record_of ir)) 150,
                       patient_id (record_of ir) = None, trial_site (record_of ir) = None])"
    by blast
  then have "length (validation_errors ir) = 2" using v by simp
  with h ir p v show ?thesis by blast
qed










text \<open>
  C7: once the schema check has passed, the load always returns, and it returns False
  exactly when the working set is empty, that is when every candidate row is invalid.
  The last error is then the message that no valid record was found, and the invalid
  records, one per input row with its reasons, are kept on the analyzer.
\<close>

theorem fails_iff_working_set_empty:
  assumes "missing_cols columns = []"
  shows "\<exists>ok st f. load_and_validate_data (Table columns raw) self = Returned ok st
           \<and> df st = Some f
           \<and> (\<not> ok \<longleftrightarrow> rows f = [])
           \<and> (rows f = [] \<longleftrightarrow> list_all invalid_mask (coerce raw))
           \<and> (\<not> ok \<longrightarrow> last (errors st) = ''No valid records found after validation''
                     \<and> map record_of (invalid_records st) = coerce raw)
           \<and> map record_of (invalid_records st) = filter invalid_mask (coerce raw)
           \<and> (\<forall>ir \<in> set (invalid_records st). validation_errors ir = reasons_of (record_of ir))"
proof -
  from load_Table_ok [OF assms] obtain ok st
    where h: "load_and_validate_data (Table columns raw) self = Returned ok st"
    by blast
  let ?v = "filter (\<lambda>r. \<not> invalid_mask r) (coerce raw)"
  let ?f = "\<lparr> rows = ?v, age_group = None \<rparr>"
  have f: "df st = Some ?f" by (rule load_Table(1) [OF h])
  have ok: "ok = (?v \<noteq> [])" by (rule load_Table(3) [OF h])
  have all: "?v = [] \<longleftrightarrow> list_all invalid_mask (coerce raw)"
    by (simp add: filter_empty_conv list_all_iff)
  have inv: "map record_of (invalid_records st) = filter invalid_mask (coerce raw)"
    unfolding load_Table(2) [OF h] by (simp add: comp_def)
  have reasons: "\<forall>ir \<in> set (invalid_records st). validation_errors ir = reasons_of (record_of ir)"
    unfolding load_Table(2) [OF h] by auto
  have err: "last (errors st) = ''No valid records found after validation''" if "\<not> ok"
  proof -
    from that ok have e: "boolean_index (coerce raw) (map Not (map invalid_mask (coerce raw))) = []"
      by (simp only: boolean_index_map_Not) simp
    have "load_and_validate_data (Table columns raw) self =
      (let cand = coerce raw;
                 flags = map invalid_mask cand;
                 invalid = collect_invalid (boolean_index cand flags) [];
                 errs = (if length invalid > 0
                         then errors self @ [''Total: '' @ str_nat (length invalid) @
                                             '' invalid record(s) excluded from analysis'']
                         else errors self);
                 valid = boolean_index cand (map Not flags);
                 self = self\<lparr> df := Some \<lparr> rows = valid, age_group = None \<rparr>,
                              invalid_records := invalid \<rparr>
             in if length valid = 0
                then Returned False (self\<lparr> errors := errs @ [''No valid records found after validation''] \<rparr>)
                else Returned True (self\<lparr> errors := errs \<rparr>))"
      by (simp only: load_and_validate_data_def csv.case assms if_False simp_thms)
    with h have "Returned ok st = Returned False
        (self\<lparr> df := Some \<lparr> rows = [], age_group = None \<rparr>,
               invalid_records := collect_invalid (boolean_index (coerce raw) (map invalid_mask (coerce raw))) [],
               errors := (if length (collect_invalid (boolean_index (coerce raw) (map invalid_mask (coerce raw))) []) > 0
                         then errors self @ [''Total: '' @ str_nat (length (collect_invalid (boolean_index (coerce raw) (map invalid_mask (coerce raw))) [])) @
                                             '' invalid record(s) excluded from analysis'']
                         else errors self) @ [''No valid records found after validation''] \<rparr>)"
      unfolding Let_def e by simp
    then have "errors st = (if length (collect_invalid (boolean_index (coerce raw) (map invalid_mask (coerce raw))) []) > 0
                         then errors self @ [''Total: '' @ str_nat (length (collect_invalid (boolean_index (coerce raw) (map invalid_mask (coerce raw))) [])) @
                                             '' invalid record(s) excluded from analysis'']
                         else errors self) @ [''No valid records found after validation'']"
      by auto
    then show ?thesis by (simp only: last_snoc)
  qed
  have full: "map record_of (invalid_records st) = coerce raw" if "\<not> ok"
    using that ok inv by (simp add: filter_empty_conv)
  show ?thesis
    using h f ok all inv reasons err full
    by (intro exI [of _ ok] exI [of _ st] exI [of _ ?f]) simp
qed

lemma overage_loaded:
  "load_and_validate_data (Table required_cols overage_table) init = Returned False all_invalid"
  by code_simp

theorem fails_iff_working_set_empty_witness:
  "missing_cols required_cols = []
   \<and> list_all invalid_mask (coerce overage_table)
   \<and> load_and_validate_data (Table required_cols overage_table) init = Returned False all_invalid
   \<and> map validation_errors (invalid_records all_invalid) =
       [[''Invalid age: 200''], [''Invalid age: 200'']]"
proof -
  from fails_iff_working_set_empty [OF required_present, of overage_table init]
  obtain ok st f where h: "load_and_validate_data (Table required_cols overage_table) init = Returned ok st"
    and f: "df st = Some f" and ok: "\<not> ok \<longleftrightarrow> rows f = []"
    and e: "rows f = [] \<longleftrightarrow> list_all invalid_mask (coerce overage_table)"
    by blast
  from h overage_loaded have "\<not> ok" by simp
  with ok e have a: "list_all invalid_mask (coerce overage_table)" by simp
  have l: "length (coerce overage_table) = 2"
    by (simp add: length_coerce overage_table_def)
  have v: "map validation_errors (invalid_records all_invalid) =
       [[''Invalid age: 200''], [''Invalid age: 200'']]"
    using l by (cases "coerce overage_table" rule: list.exhaust [case_names Nil Cons])
      (auto simp: all_invalid_def comp_def length_Suc_conv)
  from required_present a overage_loaded v show ?thesis by (intro conjI)
qed

subsection \<open>Statistics and cross analysis\<close>






lemma three_valid_loaded:
  "load_and_validate_data (Table required_cols three_valid_table) init = Returned True three_valid"
  by code_simp



text \<open>
  C10: with no data frame, or with a frame of no rows, both the statistics and the
  cross analysis return the empty dict and leave the analyzer as it is.
\<close>

theorem no_data_gives_empty_dict:
  assumes "df self = None \<or> (\<exists>d. df self = Some d \<and> length (rows d) = 0)"
  shows "calculate_statistics self = ([], self) \<and> get_advanced_analysis self = ([], self)"
  using assms
  by (auto simp: calculate_statistics_def get_advanced_analysis_def)

theorem no_data_gives_empty_dict_witness:
  "df init = None \<and> calculate_statistics init = ([], init)
   \<and> get_advanced_analysis init = ([], init)
   \<and> load_and_validate_data (Table required_cols overage_table) init = Returned False all_invalid
   \<and> calculate_statistics all_invalid = ([], all_invalid)
   \<and> get_advanced_analysis all_invalid = ([], all_invalid)"
proof -
  have 1: "df init = None \<or> (\<exists>d. df init = Some d \<and> length (rows d) = 0)"
    by (simp add: init_def)
  have 2: "df all_invalid = None \<or> (\<exists>d. df all_invalid = Some d \<and> length (rows d) = 0)"
    by (simp add: all_invalid_def)
  from no_data_gives_empty_dict [OF 1] no_data_gives_empty_dict [OF 2] overage_loaded
  show ?thesis by (simp add: init_def)
qed

lemma get_advanced_analysis_state:
  "snd (get_advanced_analysis self) =
     (case df self of
        None \<Rightarrow> self
      | Some d \<Rightarrow> if rows d = [] then self else self\<lparr> df := Some (assign_age_group d) \<rparr>)"
  by (simp add: get_advanced_analysis_def Let_def split: option.split)

lemma get_advanced_analysis_output:
  "fst (get_advanced_analysis self) =
     (case df self of
        None \<Rightarrow> []
      | Some d \<Rightarrow> if rows d = [] then []
                 else [(K ''site_performance'', VDict (site_analysis d)),
                       (K ''age_group_analysis'', VDict (age_group_analysis (assign_age_group d))),
                       (K ''correlations'', VDict (correlations (assign_age_group d)))])"
  by (simp add: get_advanced_analysis_def Let_def split: option.split)

lemma rows_assign_age_group [simp]: "rows (assign_age_group d) = rows d"
  by (simp add: assign_age_group_def)

lemma assign_age_group_idem [simp]: "assign_age_group (assign_age_group d) = assign_age_group d"
  by (simp add: assign_age_group_def)

lemma site_analysis_assign [simp]: "site_analysis (assign_age_group d) = site_analysis d"
  by (simp add: site_analysis_def)

lemma calculate_statistics_state: "snd (calculate_statistics self) = self"
  by (simp add: calculate_statistics_def Let_def split: option.split)

lemma calculate_statistics_reads:
  assumes "map_option rows (df a) = map_option rows (df b)"
    and "invalid_records a = invalid_records b"
  shows "fst (calculate_statistics a) = fst (calculate_statistics b)"
proof (cases "df a")
  case None
  with assms(1) have "df b = None" by simp
  with None show ?thesis by (simp add: calculate_statistics_def)
next
  case (Some d)
  with assms(1) obtain e where e: "df b = Some e" and r: "rows e = rows d"
    by (cases "df b") auto
  show ?thesis
    by (simp add: calculate_statistics_def Some e r assms(2) Let_def)
qed

text \<open>
  C3, as the code has it: computing the statistics leaves the analyzer unchanged. The
  cross analysis assigns the column \<open>age_group\<close> on the data frame and changes nothing
  else: rows, invalid records and errors stay. The outputs do not depend on that
  column: the statistics are the same before and after a cross analysis, and a second
  cross analysis returns what the first returned and leaves the state the first left.
\<close>

theorem statistics_pure_cross_analysis_assigns_age_group:
  "snd (calculate_statistics self) = self
   \<and> snd (get_advanced_analysis self) =
       (case df self of
          None \<Rightarrow> self
        | Some d \<Rightarrow>
            if rows d = [] then self
            else self\<lparr> df := Some (d\<lparr> age_group := Some (map (\<lambda>r. age_group_of (age r)) (rows d)) \<rparr>) \<rparr>)
   \<and> map_option rows (df (snd (get_advanced_analysis self))) = map_option rows (df self)
   \<and> invalid_records (snd (get_advanced_analysis self)) = invalid_records self
   \<and> errors (snd (get_advanced_analysis self)) = errors self
   \<and> fst (calculate_statistics (snd (calculate_statistics self))) = fst (calculate_statistics self)
   \<and> fst (calculate_statistics (snd (get_advanced_analysis self))) = fst (calculate_statistics self)
   \<and> get_advanced_analysis (snd (get_advanced_analysis self)) =
       (fst (get_advanced_analysis self), snd (get_advanced_analysis self))"
proof -
  have 1: "snd (calculate_statistics self) = self" by (rule calculate_statistics_state)
  have 2: "snd (get_advanced_analysis self) =
       (case df self of
          None \<Rightarrow> self
        | Some d \<Rightarrow>
            if rows d = [] then self
            else self\<lparr> df := Some (d\<lparr> age_group := Some (map (\<lambda>r. age_group_of (age r)) (rows d)) \<rparr>) \<rparr>)"
    by (simp add: get_advanced_analysis_state assign_age_group_def split: option.split)
  have 3: "map_option rows (df (snd (get_advanced_analysis self))) = map_option rows (df self)"
    by (simp add: get_advanced_analysis_state split: option.split)
  have 4: "invalid_records (snd (get_advanced_analysis self)) = invalid_records self"
    by (simp add: get_advanced_analysis_state split: option.split)
  have 5: "errors (snd (get_advanced_analysis self)) = errors self"
    by (simp add: get_advanced_analysis_state split: option.split)
  have 6: "fst (calculate_statistics (snd (calculate_statistics self))) = fst (calculate_statistics self)"
    by (simp only: 1)
  have 7: "fst (calculate_statistics (snd (get_advanced_analysis self))) = fst (calculate_statistics self)"
    by (rule calculate_statistics_reads [OF 3 4])
  have 8: "fst (get_advanced_analysis (snd (get_advanced_analysis self))) = fst (get_advanced_analysis self)"
    by (simp add: get_advanced_analysis_output get_advanced_analysis_state split: option.split)
  have 9: "snd (get_advanced_analysis (snd (get_advanced_analysis self))) = snd (get_advanced_analysis self)"
    by (simp add: get_advanced_analysis_state split: option.split)
  have 10: "get_advanced_analysis (snd (get_advanced_analysis self)) =
       (fst (get_advanced_analysis self), snd (get_advanced_analysis self))"
    using 8 9 by (metis prod.collapse)
  from 1 2 3 4 5 6 7 10 show ?thesis by (intro conjI)
qed

lemma three_valid_age_groups:
  "map (\<lambda>r. age_group_of (age r)) (rows (the (df three_valid))) =
     [Some ''18-35'', Some ''36-50'', Some ''51-65'']"
  by code_simp

text \<open>
  C3 as stated fails: after the cross analysis of three valid rows the analyzer is
  not the one before; its frame has gained the column \<open>age_group\<close>.
\<close>

theorem cross_analysis_mutates_counterexample:
  "load_and_validate_data (Table required_cols three_valid_table) init = Returned True three_valid
   \<and> snd (get_advanced_analysis three_valid) \<noteq> three_valid
   \<and> map_option age_group (df three_valid) = Some None
   \<and> map_option age_group (df (snd (get_advanced_analysis three_valid))) =
       Some (Some [Some ''18-35'', Some ''36-50'', Some ''51-65''])"
proof -
  have a: "map_option age_group (df three_valid) = Some None"
    by (simp add: three_valid_def)
  have d: "df three_valid = Some (the (df three_valid))" "rows (the (df three_valid)) \<noteq> []"
    by (simp_all add: three_valid_def)
  have b: "map_option age_group (df (snd (get_advanced_analysis three_valid))) =
       Some (Some [Some ''18-35'', Some ''36-50'', Some ''51-65''])"
    unfolding get_advanced_analysis_state
    by (subst d(1)) (simp add: d(2) assign_age_group_def three_valid_age_groups)
  from a b have "snd (get_advanced_analysis three_valid) \<noteq> three_valid" by auto
  with a b three_valid_loaded show ?thesis by simp
qed

theorem statistics_pure_cross_analysis_assigns_age_group_witness:
  "snd (calculate_statistics three_valid) = three_valid
   \<and> rows (the (df (snd (get_advanced_analysis three_valid)))) = rows (the (df three_valid))
   \<and> fst (calculate_statistics (snd (get_advanced_analysis three_valid)))
       = fst (calculate_statistics three_valid)
   \<and> fst (get_advanced_analysis (snd (get_advanced_analysis three_valid)))
       = fst (get_advanced_analysis three_valid)"
proof -
  note t = statistics_pure_cross_analysis_assigns_age_group [of three_valid]
  have d: "df three_valid \<noteq> None" by (simp add: three_valid_def)
  from t have 1: "snd (calculate_statistics three_valid) = three_valid" by blast
  from t have "map_option rows (df (snd (get_advanced_analysis three_valid))) = map_option rows (df three_valid)"
    by blast
  with d have 2: "rows (the (df (snd (get_advanced_analysis three_valid)))) = rows (the (df three_valid))"
    by (cases "df three_valid"; cases "df (snd (get_advanced_analysis three_valid))") auto
  from t have 3: "fst (calculate_statistics (snd (get_advanced_analysis three_valid)))
       = fst (calculate_statistics three_valid)" by blast
  from t have "get_advanced_analysis (snd (get_advanced_analysis three_valid)) =
       (fst (get_advanced_analysis three_valid), snd (get_advanced_analysis three_valid))" by blast
  then have 4: "fst (get_advanced_analysis (snd (get_advanced_analysis three_valid)))
       = fst (get_advanced_analysis three_valid)" by simp
  from 1 2 3 4 show ?thesis by (intro conjI)
qed

subsection \<open>Age groups\<close>

lemma age_group_of_eq:
  assumes "num_value x = Some v"
  shows "age_group_of x =
     (if 0 < v \<and> v \<le> 35 then Some ''18-35''
      else if 35 < v \<and> v \<le> 50 then Some ''36-50''
      else if 50 < v \<and> v \<le> 65 then Some ''51-65''
      else if 65 < v \<and> v \<le> 150 then Some ''65+''
      else None)"
  using assms by (simp add: age_group_of_def age_bins_def age_labels_def)

lemma age_interval_iff:
  "i < length age_labels \<and> age_bins ! i < v \<and> v \<le> age_bins ! Suc i \<longleftrightarrow>
     (i = 0 \<and> 0 < v \<and> v \<le> 35) \<or> (i = 1 \<and> 35 < v \<and> v \<le> 50)
     \<or> (i = 2 \<and> 50 < v \<and> v \<le> 65) \<or> (i = 3 \<and> 65 < v \<and> v \<le> 150)"
proof -
  have "i < 4 \<longleftrightarrow> i = 0 \<or> i = 1 \<or> i = 2 \<or> i = 3" by arith
  then show ?thesis
    by (auto simp: age_labels_def age_bins_def numeral_3_eq_3 numeral_2_eq_2)
qed

text \<open>
  C2, as the code has it: the age groups are the intervals \<open>(0, 35]\<close>, \<open>(35, 50]\<close>,
  \<open>(50, 65]\<close> and \<open>(65, 150]\<close> with the labels 18-35, 36-50, 51-65 and 65+. An age
  above 0 and up to 150 lies in exactly one of them and gets its label; an age of 0 or
  less, or above 150, gets none.
\<close>

theorem age_bucket_unique:
  assumes "num_value x = Some v"
  shows "(0 < v \<and> v \<le> 150 \<longrightarrow>
            (\<exists>!i. i < length age_labels \<and> age_bins ! i < v \<and> v \<le> age_bins ! Suc i)
            \<and> (\<exists>i. i < length age_labels \<and> age_bins ! i < v \<and> v \<le> age_bins ! Suc i
                  \<and> age_group_of x = Some (age_labels ! i)))
       \<and> (v \<le> 0 \<or> 150 < v \<longrightarrow> age_group_of x = None)"
proof (intro conjI impI)
  assume r: "0 < v \<and> v \<le> 150"
  then consider "v \<le> 35" | "35 < v" "v \<le> 50" | "50 < v" "v \<le> 65" | "65 < v"
    by linarith
  then obtain i where i: "i < length age_labels \<and> age_bins ! i < v \<and> v \<le> age_bins ! Suc i"
    and l: "age_group_of x = Some (age_labels ! i)"
  proof cases
    case 1
    with r have "0 < length age_labels \<and> age_bins ! 0 < v \<and> v \<le> age_bins ! Suc 0"
      by (simp add: age_labels_def age_bins_def)
    moreover have "age_group_of x = Some (age_labels ! 0)"
      using 1 r by (simp add: age_group_of_eq [OF assms] age_labels_def)
    ultimately show ?thesis by (rule that)
  next
    case 2
    with r have "1 < length age_labels \<and> age_bins ! 1 < v \<and> v \<le> age_bins ! Suc 1"
      by (simp add: age_labels_def age_bins_def)
    moreover have "age_group_of x = Some (age_labels ! 1)"
      using 2 r by (simp add: age_group_of_eq [OF assms] age_labels_def)
    ultimately show ?thesis by (rule that)
  next
    case 3
    with r have "2 < length age_labels \<and> age_bins ! 2 < v \<and> v \<le> age_bins ! Suc 2"
      by (simp add: age_labels_def age_bins_def)
    moreover have "age_group_of x = Some (age_labels ! 2)"
      using 3 r by (simp add: age_group_of_eq [OF assms] age_labels_def)
    ultimately show ?thesis by (rule that)
  next
    case 4
    with r have "3 < length age_labels \<and> age_bins ! 3 < v \<and> v \<le> age_bins ! Suc 3"
      by (simp add: age_labels_def age_bins_def)
    moreover have "age_group_of x = Some (age_labels ! 3)"
      using 4 r by (simp add: age_group_of_eq [OF assms] age_labels_def)
    ultimately show ?thesis by (rule that)
  qed
  show "\<exists>!i. i < length age_labels \<and> age_bins ! i < v \<and> v \<le> age_bins ! Suc i"
  proof (rule ex1I [of _ i])
    show "i < length age_labels \<and> age_bins ! i < v \<and> v \<le> age_bins ! Suc i" by (rule i)
  next
    fix j assume "j < length age_labels \<and> age_bins ! j < v \<and> v \<le> age_bins ! Suc j"
    with i show "j = i" unfolding age_interval_iff by linarith
  qed
  from i l show "\<exists>i. i < length age_labels \<and> age_bins ! i < v \<and> v \<le> age_bins ! Suc i
                  \<and> age_group_of x = Some (age_labels ! i)" by blast
next
  assume "v \<le> 0 \<or> 150 < v"
  then show "age_group_of x = None"
    by (auto simp: age_group_of_eq [OF assms])
qed

theorem age_bucket_unique_witness:
  "num_value (IntV 35) = Some 35 \<and> age_group_of (IntV 35) = Some ''18-35''
   \<and> age_group_of (FloatV (71 / 2)) = Some ''36-50''
   \<and> age_group_of (IntV 150) = Some ''65+''
   \<and> age_group_of (IntV 151) = None
   \<and> (\<exists>!i. i < length age_labels \<and> age_bins ! i < 35 \<and> 35 \<le> age_bins ! Suc i)"
proof -
  have n: "num_value (IntV 35) = Some 35" by simp
  from age_bucket_unique [OF n]
  have u: "\<exists>!i. i < length age_labels \<and> age_bins ! i < 35 \<and> 35 \<le> age_bins ! Suc i"
    by simp
  have "age_group_of (IntV 35) = Some ''18-35''"
       "age_group_of (FloatV (71 / 2)) = Some ''36-50''"
       "age_group_of (IntV 150) = Some ''65+''"
       "age_group_of (IntV 151) = None"
    by code_simp+
  with n u show ?thesis by (intro conjI)
qed

text \<open>
  C2 as stated fails at age 0: the row is valid, and its age is in no group.
\<close>

theorem age_zero_counterexample:
  "coerce [csv_row (Some ''P001'') (Some ''SiteA'') ''2024-01-15'' ''0'' ''false'' ''true''] = [newborn]
   \<and> \<not> invalid_mask newborn
   \<and> num_value (age newborn) = Some 0
   \<and> age_group_of (age newborn) = None
   \<and> age_group (assign_age_group \<lparr> rows = [newborn], age_group = None \<rparr>) = Some [None]"
proof -
  have 1: "coerce [csv_row (Some ''P001'') (Some ''SiteA'') ''2024-01-15'' ''0'' ''false'' ''true''] = [newborn]"
    by code_simp
  have 2: "\<not> invalid_mask newborn"
    by (simp add: invalid_mask_def newborn_def num_lt_def num_gt_def)
  have 3: "num_value (age newborn) = Some 0" by (simp add: newborn_def)
  have 4: "age_group_of (age newborn) = None"
    by (simp add: age_group_of_eq [OF 3])
  have 5: "age_group (assign_age_group \<lparr> rows = [newborn], age_group = None \<rparr>) = Some [None]"
    by (simp add: assign_age_group_def 4)
  from 1 2 3 4 5 show ?thesis by (intro conjI)
qed

subsection \<open>Grades\<close>

text \<open>
  C9: the grade is A from 90 up, B from 70 up to but not including 90, C from 50 up to
  but not including 70, and D below 50; so 90 is an A, 89.99 and 70 are a B, and 49.99
  is a D.
\<close>

theorem grade_thresholds:
  "(90 \<le> rate \<longrightarrow> grade rate = ''A (Excellent)'' \<and> grade_letter rate = ''A'')
   \<and> (70 \<le> rate \<and> rate < 90 \<longrightarrow> grade rate = ''B (Good)'' \<and> grade_letter rate = ''B'')
   \<and> (50 \<le> rate \<and> rate < 70 \<longrightarrow> grade rate = ''C (Fair)'' \<and> grade_letter rate = ''C'')
   \<and> (rate < 50 \<longrightarrow> grade rate = ''D (Poor)'' \<and> grade_letter rate = ''D'')
   \<and> grade_letter 90 = ''A'' \<and> grade_letter (8999 / 100) = ''B''
   \<and> grade_letter 70 = ''B'' \<and> grade_letter (4999 / 100) = ''D''"
  by (simp add: grade_def grade_letter_def)

theorem grade_thresholds_witness:
  "grade 100 = ''A (Excellent)'' \<and> grade 75 = ''B (Good)'' \<and> grade 50 = ''C (Fair)''
   \<and> grade 0 = ''D (Poor)'' \<and> grade (8999 / 100) = ''B (Good)''"
proof -
  from grade_thresholds [of 100] have a: "grade 100 = ''A (Excellent)''" by simp
  from grade_thresholds [of 75] have b: "grade 75 = ''B (Good)''" by simp
  from grade_thresholds [of 50] have c: "grade 50 = ''C (Fair)''" by simp
  from grade_thresholds [of 0] have d: "grade 0 = ''D (Poor)''" by simp
  from grade_thresholds [of "8999 / 100"] have e: "grade (8999 / 100) = ''B (Good)''" by simp
  from a b c d e show ?thesis by (intro conjI)
qed

end
